theory Spec2Isabelle
  imports Complex_Main
begin

section \<open>Sensor readings service: generation, ingestion and statistics\<close>

text \<open>
  The development follows \<^verbatim>\<open>function_app.py\<close>. The Python floats of the readings are
  idealised as real numbers; a timestamp is an integer instant. The sequence of values that
  successive calls of \<^verbatim>\<open>random.random()\<close> return is a function from the position of
  the call to the value drawn, and the position is threaded through the generator.
\<close>

subsection \<open>Data\<close>

type_synonym timestamp = int

text \<open>One element of the list built by \<^verbatim>\<open>generate_sensor_readings\<close> (a dict with these keys).\<close>

record reading =
  sensor_id :: int
  temperature :: real
  wind :: real
  humidity :: real
  co2 :: real

text \<open>One row of the table \<^verbatim>\<open>SensorReadings\<close>, with the columns of the INSERT statement.\<close>

record sql_row =
  SensorId :: int
  Temperature :: real
  WindSpeed :: real
  Humidity :: real
  CO2 :: real
  ReadingTimeUtc :: timestamp

subsection \<open>The reading generator\<close>

type_synonym random_source = "nat \<Rightarrow> real"

text \<open>
  \<^verbatim>\<open>random.uniform(a, b)\<close> is \<^verbatim>\<open>a + (b - a) * random()\<close>; it consumes one draw.
\<close>

definition uniform :: "real \<Rightarrow> real \<Rightarrow> random_source \<Rightarrow> nat \<Rightarrow> real \<times> nat" where
  "uniform a b rnd i = (a + (b - a) * rnd i, Suc i)"

text \<open>The body of \<^verbatim>\<open>for sensor_id in range(1, num_sensors + 1)\<close>, appending to \<^verbatim>\<open>readings\<close>.\<close>

fun readings_loop :: "random_source \<Rightarrow> int list \<Rightarrow> nat \<Rightarrow> reading list \<Rightarrow> reading list \<times> nat" where
  "readings_loop rnd [] i readings = (readings, i)"
| "readings_loop rnd (sid # sids) i readings =
     (let (t, i1) = uniform 5 18 rnd i;
          (w, i2) = uniform 12 24 rnd i1;
          (h, i3) = uniform 30 60 rnd i2;
          (c, i4) = uniform 400 1600 rnd i3
      in readings_loop rnd sids i4
           (readings @ [\<lparr>sensor_id = sid, temperature = t, wind = w, humidity = h, co2 = c\<rparr>]))"

definition generate_sensor_readings :: "random_source \<Rightarrow> nat \<Rightarrow> reading list \<times> nat" where
  "generate_sensor_readings rnd i =
     (let num_sensors = 20 in readings_loop rnd [1..num_sensors] i [])"

text \<open>The ranges documented for the four metrics.\<close>

definition in_documented_range :: "reading \<Rightarrow> bool" where
  "in_documented_range r \<longleftrightarrow>
     5 \<le> temperature r \<and> temperature r \<le> 18 \<and>
     12 \<le> wind r \<and> wind r \<le> 24 \<and>
     30 \<le> humidity r \<and> humidity r \<le> 60 \<and>
     400 \<le> co2 r \<and> co2 r \<le> 1600"

text \<open>A source whose every draw is one half, for concrete runs.\<close>

definition midpoint_source :: random_source where
  "midpoint_source n = 1 / 2"

subsection \<open>Exceptions, configuration and the database driver\<close>

datatype py_error =
    KeyError string
  | DbError string
  | UnboundLocalError string
  | TypeError string

text \<open>
  \<^verbatim>\<open>str(e)\<close> of an exception: its message; for a \<^verbatim>\<open>KeyError\<close>, the key between
  single quotes.
\<close>

fun str :: "py_error \<Rightarrow> string" where
  "str (KeyError m) = CHR 0x27 # m @ [CHR 0x27]"
| "str (DbError m) = m"
| "str (UnboundLocalError m) = m"
| "str (TypeError m) = m"

text \<open>\<^verbatim>\<open>os.environ\<close>.\<close>

type_synonym environ = "string \<rightharpoonup> string"

text \<open>The store: the committed rows of the table, in insertion order.\<close>

record database =
  SensorReadings :: "sql_row list"

text \<open>
  A \<^verbatim>\<open>pyodbc\<close> connection is opened with autocommit off (the default of
  \<^verbatim>\<open>pyodbc.connect\<close>, which the handlers do not override): the rows a cursor inserts
  stay in the connection's open transaction until \<^verbatim>\<open>commit()\<close>, and a connection that is
  closed or dropped without a commit takes its pending rows with it.
\<close>

record connection =
  pending :: "sql_row list"

text \<open>
  Which driver calls of one handler invocation raise. \<open>execute_fails k\<close> is about the
  \<open>k\<close>-th \<^verbatim>\<open>cursor.execute\<close> of the invocation, counted from 0.
\<close>

record faults =
  connect_fails :: bool
  cursor_fails :: bool
  execute_fails :: "nat \<Rightarrow> bool"
  commit_fails :: bool
  close_fails :: bool

definition pyodbc_connect :: "faults \<Rightarrow> string \<Rightarrow> py_error + connection" where
  "pyodbc_connect f connection_string =
     (if connect_fails f then Inl (DbError ''connect failed'') else Inr \<lparr>pending = []\<rparr>)"

definition conn_cursor :: "faults \<Rightarrow> connection \<Rightarrow> py_error + unit" where
  "conn_cursor f conn = (if cursor_fails f then Inl (DbError ''cursor failed'') else Inr ())"

text \<open>An INSERT: it raises with no effect, or adds the row to the open transaction.\<close>

definition cursor_execute_insert ::
    "faults \<Rightarrow> nat \<Rightarrow> connection \<Rightarrow> sql_row \<Rightarrow> py_error option \<times> connection" where
  "cursor_execute_insert f k conn row =
     (if execute_fails f k then (Some (DbError ''execute failed''), conn)
      else (None, conn\<lparr>pending := pending conn @ [row]\<rparr>))"

text \<open>A commit: it raises with no effect, or makes the pending rows part of the table.\<close>

definition conn_commit ::
    "faults \<Rightarrow> connection \<Rightarrow> database \<Rightarrow> py_error option \<times> connection \<times> database" where
  "conn_commit f conn db =
     (if commit_fails f then (Some (DbError ''commit failed''), conn, db)
      else (None, conn\<lparr>pending := []\<rparr>, db\<lparr>SensorReadings := SensorReadings db @ pending conn\<rparr>))"

text \<open>
  \<^verbatim>\<open>conn.close()\<close> on the local variable \<^verbatim>\<open>conn\<close>, which is unbound (\<open>None\<close>) when
  \<^verbatim>\<open>pyodbc.connect\<close> raised. The connection is gone afterwards, with whatever was pending.
\<close>

definition conn_close :: "faults \<Rightarrow> connection option \<Rightarrow> py_error + unit" where
  "conn_close f conn =
     (case conn of
        None \<Rightarrow> Inl (UnboundLocalError ''conn'')
      | Some c \<Rightarrow> if close_fails f then Inl (DbError ''close failed'') else Inr ())"

text \<open>The \<^verbatim>\<open>finally\<close> block of both ingestion handlers: close, and swallow what it raises.\<close>

definition finally_close :: "faults \<Rightarrow> connection option \<Rightarrow> unit" where
  "finally_close f conn = (case conn_close f conn of Inl e \<Rightarrow> () | Inr u \<Rightarrow> ())"

subsection \<open>HTTP responses and log lines\<close>

record sensor_stats =
  stat_sensor_id :: int
  temperature_min :: "real option"
  temperature_max :: "real option"
  temperature_avg :: real
  wind_min :: "real option"
  wind_max :: "real option"
  wind_avg :: real
  humidity_min :: "real option"
  humidity_max :: "real option"
  humidity_avg :: real
  co2_min :: "real option"
  co2_max :: "real option"
  co2_avg :: real

datatype body =
    Text string
  | GenerateJson nat timestamp "reading list"
  | StatsJson "sensor_stats list"

record http_response =
  status_code :: nat
  body :: body

text \<open>The line the timer handler logs at the end of its \<^verbatim>\<open>try\<close> or in its \<^verbatim>\<open>except\<close>.\<close>

datatype log_line =
    InfoInserted nat
  | ErrorSql py_error

subsection \<open>The HTTP ingestion handler\<close>

fun http_insert_loop ::
    "faults \<Rightarrow> timestamp \<Rightarrow> nat \<Rightarrow> reading list \<Rightarrow> connection \<Rightarrow> py_error option \<times> connection" where
  "http_insert_loop f utc_timestamp k [] conn = (None, conn)"
| "http_insert_loop f utc_timestamp k (r # rs) conn =
     (case cursor_execute_insert f k conn
             \<lparr>SensorId = sensor_id r, Temperature = temperature r, WindSpeed = wind r,
              Humidity = humidity r, CO2 = co2 r, ReadingTimeUtc = utc_timestamp\<rparr> of
        (Some e, conn') \<Rightarrow> (Some e, conn')
      | (None, conn') \<Rightarrow> http_insert_loop f utc_timestamp (Suc k) rs conn')"

text \<open>
  The \<^verbatim>\<open>try\<close> block: the value of \<^verbatim>\<open>conn\<close> when the block is left, the exception it
  raised if any, and the store.
\<close>

definition http_try ::
    "faults \<Rightarrow> string \<Rightarrow> reading list \<Rightarrow> timestamp \<Rightarrow> database \<Rightarrow>
     connection option \<times> py_error option \<times> database" where
  "http_try f connection_string readings utc_timestamp db =
     (case pyodbc_connect f connection_string of
        Inl e \<Rightarrow> (None, Some e, db)
      | Inr conn \<Rightarrow>
          (case conn_cursor f conn of
             Inl e \<Rightarrow> (Some conn, Some e, db)
           | Inr cursor \<Rightarrow>
               (case http_insert_loop f utc_timestamp 0 readings conn of
                  (Some e, conn1) \<Rightarrow> (Some conn1, Some e, db)
                | (None, conn1) \<Rightarrow>
                    (case conn_commit f conn1 db of
                       (Some e, conn2, db') \<Rightarrow> (Some conn2, Some e, db')
                     | (None, conn2, db') \<Rightarrow> (Some conn2, None, db')))))"

text \<open>
  The handler returns the response, or raises (\<open>Inl\<close>) when the environment variable is
  missing, which is read before the \<^verbatim>\<open>try\<close>. Its log lines are not part of the model.
\<close>

definition generate_http ::
    "environ \<Rightarrow> random_source \<Rightarrow> nat \<Rightarrow> timestamp \<Rightarrow> faults \<Rightarrow> database \<Rightarrow>
     (py_error + http_response) \<times> database" where
  "generate_http environ rnd i now f db =
     (let (readings, i') = generate_sensor_readings rnd i;
          utc_timestamp = now
      in case environ ''AZURE_SQL_CONNECTIONSTRING'' of
           None \<Rightarrow> (Inl (KeyError ''AZURE_SQL_CONNECTIONSTRING''), db)
         | Some connection_string \<Rightarrow>
             (case http_try f connection_string readings utc_timestamp db of
                (conn, Some e, db') \<Rightarrow>
                  (let u = finally_close f conn
                   in (Inr \<lparr>status_code = 500,
                             body = Text (''Error inserting into SQL: '' @ str e)\<rparr>, db'))
              | (conn, None, db') \<Rightarrow>
                  (let u = finally_close f conn
                   in (Inr \<lparr>status_code = 200,
                             body = GenerateJson (length readings) utc_timestamp readings\<rparr>,
                       db'))))"

subsection \<open>The timer ingestion handler\<close>

fun timer_insert_loop ::
    "faults \<Rightarrow> timestamp \<Rightarrow> nat \<Rightarrow> reading list \<Rightarrow> connection \<Rightarrow> py_error option \<times> connection" where
  "timer_insert_loop f utc_timestamp k [] conn = (None, conn)"
| "timer_insert_loop f utc_timestamp k (r # rs) conn =
     (case cursor_execute_insert f k conn
             \<lparr>SensorId = sensor_id r, Temperature = temperature r, WindSpeed = wind r,
              Humidity = humidity r, CO2 = co2 r, ReadingTimeUtc = utc_timestamp\<rparr> of
        (Some e, conn') \<Rightarrow> (Some e, conn')
      | (None, conn') \<Rightarrow> timer_insert_loop f utc_timestamp (Suc k) rs conn')"

definition timer_try ::
    "faults \<Rightarrow> string \<Rightarrow> reading list \<Rightarrow> timestamp \<Rightarrow> database \<Rightarrow>
     connection option \<times> py_error option \<times> database" where
  "timer_try f connection_string readings utc_timestamp db =
     (case pyodbc_connect f connection_string of
        Inl e \<Rightarrow> (None, Some e, db)
      | Inr conn \<Rightarrow>
          (case conn_cursor f conn of
             Inl e \<Rightarrow> (Some conn, Some e, db)
           | Inr cursor \<Rightarrow>
               (case timer_insert_loop f utc_timestamp 0 readings conn of
                  (Some e, conn1) \<Rightarrow> (Some conn1, Some e, db)
                | (None, conn1) \<Rightarrow>
                    (case conn_commit f conn1 db of
                       (Some e, conn2, db') \<Rightarrow> (Some conn2, Some e, db')
                     | (None, conn2, db') \<Rightarrow> (Some conn2, None, db')))))"

text \<open>
  The handler returns nothing; the model returns the line it logs about the insertion, or
  the exception it raises (\<open>Inl\<close>) when the environment variable is missing.
\<close>

definition generate_timer ::
    "environ \<Rightarrow> random_source \<Rightarrow> nat \<Rightarrow> timestamp \<Rightarrow> faults \<Rightarrow> database \<Rightarrow>
     (py_error + log_line) \<times> database" where
  "generate_timer environ rnd i now f db =
     (let (readings, i') = generate_sensor_readings rnd i;
          utc_timestamp = now
      in case environ ''AZURE_SQL_CONNECTIONSTRING'' of
           None \<Rightarrow> (Inl (KeyError ''AZURE_SQL_CONNECTIONSTRING''), db)
         | Some connection_string \<Rightarrow>
             (case timer_try f connection_string readings utc_timestamp db of
                (conn, Some e, db') \<Rightarrow>
                  (let u = finally_close f conn in (Inr (ErrorSql e), db'))
              | (conn, None, db') \<Rightarrow>
                  (let u = finally_close f conn
                   in (Inr (InfoInserted (length readings)), db'))))"

subsection \<open>The statistics query\<close>

text \<open>
  SQL aggregates over the values of one column in one group; \<open>None\<close> is NULL, the value
  of an aggregate over no row. The engine computes them in double precision; here they are
  exact functions of the rows of the group. The properties proved below depend only on
  which aggregates are NULL, on the sensor ids, and on the result set being determined by
  the rows the query sees; never on the numbers themselves.
\<close>

definition sql_MIN :: "real list \<Rightarrow> real option" where
  "sql_MIN xs = (case xs of [] \<Rightarrow> None | x # ys \<Rightarrow> Some (fold min ys x))"

definition sql_MAX :: "real list \<Rightarrow> real option" where
  "sql_MAX xs = (case xs of [] \<Rightarrow> None | x # ys \<Rightarrow> Some (fold max ys x))"

definition sql_AVG :: "real list \<Rightarrow> real option" where
  "sql_AVG xs = (case xs of [] \<Rightarrow> None | x # ys \<Rightarrow> Some (sum_list xs / real (length xs)))"

text \<open>
  A row of the result set. The handler reads the columns by position, \<^verbatim>\<open>r[0]\<close> to
  \<^verbatim>\<open>r[12]\<close>; the names are the aliases of the same query in \<^verbatim>\<open>stats_sql_trigger\<close>.
\<close>

record agg_row =
  GroupSensorId :: int
  MinTemp :: "real option"
  MaxTemp :: "real option"
  AvgTemp :: "real option"
  MinWind :: "real option"
  MaxWind :: "real option"
  AvgWind :: "real option"
  MinHumidity :: "real option"
  MaxHumidity :: "real option"
  AvgHumidity :: "real option"
  MinCO2 :: "real option"
  MaxCO2 :: "real option"
  AvgCO2 :: "real option"

text \<open>\<^verbatim>\<open>GROUP BY SensorId\<close>: one group for each SensorId of the table, holding its rows.\<close>

definition group_by_SensorId :: "sql_row list \<Rightarrow> (int \<times> sql_row list) list" where
  "group_by_SensorId rows =
     map (\<lambda>k. (k, filter (\<lambda>r. SensorId r = k) rows)) (remdups (map SensorId rows))"

text \<open>The SELECT list, computed for one group.\<close>

definition select_aggregates :: "int \<times> sql_row list \<Rightarrow> agg_row" where
  "select_aggregates kg =
     (case kg of (k, g) \<Rightarrow>
        \<lparr>GroupSensorId = k,
         MinTemp = sql_MIN (map Temperature g),
         MaxTemp = sql_MAX (map Temperature g),
         AvgTemp = sql_AVG (map Temperature g),
         MinWind = sql_MIN (map WindSpeed g),
         MaxWind = sql_MAX (map WindSpeed g),
         AvgWind = sql_AVG (map WindSpeed g),
         MinHumidity = sql_MIN (map Humidity g),
         MaxHumidity = sql_MAX (map Humidity g),
         AvgHumidity = sql_AVG (map Humidity g),
         MinCO2 = sql_MIN (map CO2 g),
         MaxCO2 = sql_MAX (map CO2 g),
         AvgCO2 = sql_AVG (map CO2 g)\<rparr>)"

text \<open>The whole statement: group, aggregate, \<^verbatim>\<open>ORDER BY SensorId\<close>.\<close>

definition stats_query :: "sql_row list \<Rightarrow> agg_row list" where
  "stats_query rows = sort_key GroupSensorId (map select_aggregates (group_by_SensorId rows))"

text \<open>
  \<^verbatim>\<open>cur.execute(...)\<close> with the statistics query, then \<^verbatim>\<open>cur.fetchall()\<close>: the query
  sees the committed rows and the rows pending on its own connection.
\<close>

definition cursor_execute_select ::
    "faults \<Rightarrow> nat \<Rightarrow> connection \<Rightarrow> database \<Rightarrow> py_error + agg_row list" where
  "cursor_execute_select f k conn db =
     (if execute_fails f k then Inl (DbError ''execute failed'')
      else Inr (stats_query (SensorReadings db @ pending conn)))"

text \<open>\<^verbatim>\<open>float(x)\<close> on a value of the result set: NULL arrives as \<^verbatim>\<open>None\<close>, and raises.\<close>

definition py_float :: "real option \<Rightarrow> py_error + real" where
  "py_float v =
     (case v of
        None \<Rightarrow>
          Inl (TypeError (''float() argument must be a string or a real number, not '' @
                          [CHR 0x27] @ ''NoneType'' @ [CHR 0x27]))
      | Some x \<Rightarrow> Inr x)"

text \<open>The loop \<^verbatim>\<open>for r in rows: data.append({...})\<close>.\<close>

fun format_loop :: "agg_row list \<Rightarrow> sensor_stats list \<Rightarrow> py_error + sensor_stats list" where
  "format_loop [] data = Inr data"
| "format_loop (r # rs) data =
     (case py_float (AvgTemp r) of
        Inl e \<Rightarrow> Inl e
      | Inr ta \<Rightarrow>
          (case py_float (AvgWind r) of
             Inl e \<Rightarrow> Inl e
           | Inr wa \<Rightarrow>
               (case py_float (AvgHumidity r) of
                  Inl e \<Rightarrow> Inl e
                | Inr ha \<Rightarrow>
                    (case py_float (AvgCO2 r) of
                       Inl e \<Rightarrow> Inl e
                     | Inr ca \<Rightarrow>
                         format_loop rs
                           (data @
                            [\<lparr>stat_sensor_id = GroupSensorId r,
                              temperature_min = MinTemp r, temperature_max = MaxTemp r,
                              temperature_avg = ta,
                              wind_min = MinWind r, wind_max = MaxWind r, wind_avg = wa,
                              humidity_min = MinHumidity r, humidity_max = MaxHumidity r,
                              humidity_avg = ha,
                              co2_min = MinCO2 r, co2_max = MaxCO2 r, co2_avg = ca\<rparr>])))))"

text \<open>
  The \<^verbatim>\<open>try\<close> block of \<^verbatim>\<open>stats_http\<close>; here the environment variable is read inside it.
  The connection is never closed and nothing is committed.
\<close>

definition stats_try :: "environ \<Rightarrow> faults \<Rightarrow> database \<Rightarrow> (py_error + sensor_stats list) \<times> database" where
  "stats_try environ f db =
     (case environ ''AZURE_SQL_CONNECTIONSTRING'' of
        None \<Rightarrow> (Inl (KeyError ''AZURE_SQL_CONNECTIONSTRING''), db)
      | Some connection_string \<Rightarrow>
          (case pyodbc_connect f connection_string of
             Inl e \<Rightarrow> (Inl e, db)
           | Inr conn \<Rightarrow>
               (case conn_cursor f conn of
                  Inl e \<Rightarrow> (Inl e, db)
                | Inr cur \<Rightarrow>
                    (case cursor_execute_select f 0 conn db of
                       Inl e \<Rightarrow> (Inl e, db)
                     | Inr rows \<Rightarrow> (format_loop rows [], db)))))"

definition stats_http :: "environ \<Rightarrow> faults \<Rightarrow> database \<Rightarrow> http_response \<times> database" where
  "stats_http environ f db =
     (case stats_try environ f db of
        (Inl e, db') \<Rightarrow> (\<lparr>status_code = 500, body = Text (str e)\<rparr>, db')
      | (Inr data, db') \<Rightarrow> (\<lparr>status_code = 200, body = StatsJson data\<rparr>, db'))"

text \<open>No average of the row is NULL.\<close>

definition averages_present :: "agg_row \<Rightarrow> bool" where
  "averages_present r \<longleftrightarrow>
     AvgTemp r \<noteq> None \<and> AvgWind r \<noteq> None \<and> AvgHumidity r \<noteq> None \<and> AvgCO2 r \<noteq> None"

subsection \<open>The rows of a batch\<close>

text \<open>The rows that the INSERT statements of one handler call carry, in order.\<close>

definition batch_rows :: "timestamp \<Rightarrow> reading list \<Rightarrow> sql_row list" where
  "batch_rows utc_timestamp readings =
     map (\<lambda>r. \<lparr>SensorId = sensor_id r, Temperature = temperature r, WindSpeed = wind r,
                Humidity = humidity r, CO2 = co2 r, ReadingTimeUtc = utc_timestamp\<rparr>) readings"

subsection \<open>Concrete inputs\<close>

definition no_faults :: faults where
  "no_faults =
     \<lparr>connect_fails = False, cursor_fails = False, execute_fails = (\<lambda>k. False),
      commit_fails = False, close_fails = False\<rparr>"

text \<open>The third INSERT of the batch raises.\<close>

definition third_insert_fails :: faults where
  "third_insert_fails =
     \<lparr>connect_fails = False, cursor_fails = False, execute_fails = (\<lambda>k. k = 2),
      commit_fails = False, close_fails = False\<rparr>"

text \<open>The store cannot be reached: \<^verbatim>\<open>pyodbc.connect\<close> raises.\<close>

definition store_unreachable :: faults where
  "store_unreachable =
     \<lparr>connect_fails = True, cursor_fails = False, execute_fails = (\<lambda>k. False),
      commit_fails = False, close_fails = False\<rparr>"


definition configured :: environ where
  "configured = [''AZURE_SQL_CONNECTIONSTRING'' \<mapsto> ''Driver=ODBC;Server=db'']"

definition empty_store :: database where
  "empty_store = \<lparr>SensorReadings = []\<rparr>"

definition sample_row :: "int \<Rightarrow> real \<Rightarrow> sql_row" where
  "sample_row k t =
     \<lparr>SensorId = k, Temperature = t, WindSpeed = 15, Humidity = 40, CO2 = 500,
      ReadingTimeUtc = 0\<rparr>"

definition sample_store :: database where
  "sample_store = \<lparr>SensorReadings = [sample_row 2 10, sample_row 1 12, sample_row 2 14]\<rparr>"

section \<open>Properties of the generator\<close>

lemma uniform_in_range:
  assumes "a \<le> b" and "0 \<le> rnd i" and "rnd i < 1"
  shows "a \<le> fst (uniform a b rnd i) \<and> fst (uniform a b rnd i) \<le> b"
proof -
  have d: "0 \<le> b - a" using assms(1) by simp
  have lo: "0 \<le> (b - a) * rnd i" using d assms(2) by (rule mult_nonneg_nonneg)
  have "(b - a) * rnd i \<le> (b - a) * 1"
    using d assms(3) by (intro mult_left_mono) simp_all
  then have hi: "(b - a) * rnd i \<le> b - a" by simp
  show ?thesis using lo hi by (simp add: uniform_def)
qed

lemma readings_loop_ids:
  "map sensor_id (fst (readings_loop rnd sids i acc)) = map sensor_id acc @ sids"
  by (induction sids arbitrary: i acc) (simp_all add: uniform_def)

lemma readings_loop_range:
  assumes unit: "\<forall>n. 0 \<le> rnd n \<and> rnd n < 1"
  shows "list_all in_documented_range acc \<Longrightarrow>
         list_all in_documented_range (fst (readings_loop rnd sids i acc))"
proof (induction sids arbitrary: i acc)
  case Nil
  then show ?case by simp
next
  case (Cons sid sids)
  let ?r = "\<lparr>sensor_id = sid, temperature = fst (uniform 5 18 rnd i),
              wind = fst (uniform 12 24 rnd (Suc i)),
              humidity = fst (uniform 30 60 rnd (Suc (Suc i))),
              co2 = fst (uniform 400 1600 rnd (Suc (Suc (Suc i))))\<rparr>"
  have "in_documented_range ?r"
    unfolding in_documented_range_def
    using uniform_in_range [of 5 18 rnd i] uniform_in_range [of 12 24 rnd "Suc i"]
      uniform_in_range [of 30 60 rnd "Suc (Suc i)"]
      uniform_in_range [of 400 1600 rnd "Suc (Suc (Suc i))"] unit
    by simp
  then have "list_all in_documented_range (acc @ [?r])"
    using Cons.prems by simp
  from Cons.IH [OF this, of "Suc (Suc (Suc (Suc i)))"] show ?case
    by (simp add: uniform_def)
qed

lemma generate_ids: "map sensor_id (fst (generate_sensor_readings rnd i)) = [1..20]"
  by (simp add: generate_sensor_readings_def readings_loop_ids)

lemma generate_length: "length (fst (generate_sensor_readings rnd i)) = 20"
proof -
  have "length (map sensor_id (fst (generate_sensor_readings rnd i))) = 20"
    unfolding generate_ids by simp
  then show ?thesis by simp
qed

text \<open>
  Claim C3, as the code has it. The generator takes no count: whatever the random source,
  it returns exactly 20 readings, their sensor ids are 1 to 20 in this order, and when every
  draw of the source lies in the unit interval (as the draws of \<^verbatim>\<open>random.random()\<close> do),
  every metric of every reading lies in its documented range: temperature in [5, 18],
  wind in [12, 24], humidity in [30, 60], co2 in [400, 1600].
\<close>

theorem generate_fixed_batch:
  assumes "\<forall>n. 0 \<le> rnd n \<and> rnd n < 1"
  shows "length (fst (generate_sensor_readings rnd i)) = 20 \<and>
         map sensor_id (fst (generate_sensor_readings rnd i)) = [1..20] \<and>
         list_all in_documented_range (fst (generate_sensor_readings rnd i))"
proof -
  have "list_all in_documented_range (fst (generate_sensor_readings rnd i))"
    using readings_loop_range [OF assms, of "[]"] by (simp add: generate_sensor_readings_def)
  then show ?thesis using generate_ids generate_length by simp
qed

theorem generate_fixed_batch_witness:
  "length (fst (generate_sensor_readings midpoint_source 0)) = 20 \<and>
   map sensor_id (fst (generate_sensor_readings midpoint_source 0)) = [1..20] \<and>
   list_all in_documented_range (fst (generate_sensor_readings midpoint_source 0))"
proof -
  have "\<forall>n. 0 \<le> midpoint_source n \<and> midpoint_source n < 1"
    by (simp add: midpoint_source_def)
  from generate_fixed_batch [OF this] show ?thesis .
qed

text \<open>
  Claim C3, as the specification words it, fails: a caller that wants 5 readings has no
  count to pass, and the generator returns 20 readings with the ids 1 to 20, not 5 readings
  with the ids 1 to 5.
\<close>

theorem generate_count_counterexample:
  "\<not> (length (fst (generate_sensor_readings midpoint_source 0)) = 5 \<and>
      map sensor_id (fst (generate_sensor_readings midpoint_source 0)) = [1..5])"
  using generate_length [of midpoint_source 0] by simp

section \<open>Properties of the ingestion handlers\<close>

lemma http_insert_loop_pending:
  "http_insert_loop f ts k rs conn = (None, conn') \<Longrightarrow>
   pending conn' = pending conn @ batch_rows ts rs"
proof (induction rs arbitrary: k conn)
  case Nil
  then show ?case by (simp add: batch_rows_def)
next
  case (Cons r rs)
  show ?case
  proof (cases "execute_fails f k")
    case True
    with Cons.prems show ?thesis by (simp add: cursor_execute_insert_def)
  next
    case False
    let ?row = "\<lparr>SensorId = sensor_id r, Temperature = temperature r, WindSpeed = wind r,
                  Humidity = humidity r, CO2 = co2 r, ReadingTimeUtc = ts\<rparr>"
    from False Cons.prems
    have "http_insert_loop f ts (Suc k) rs (conn\<lparr>pending := pending conn @ [?row]\<rparr>) = (None, conn')"
      by (simp add: cursor_execute_insert_def)
    from Cons.IH [OF this] show ?thesis by (simp add: batch_rows_def)
  qed
qed

lemma http_insert_loop_ok_iff:
  "fst (http_insert_loop f ts k rs conn) = None \<longleftrightarrow> (\<forall>j<length rs. \<not> execute_fails f (k + j))"
proof (induction rs arbitrary: k conn)
  case Nil
  then show ?case by simp
next
  case (Cons r rs)
  show ?case
  proof (cases "execute_fails f k")
    case True
    then have "fst (http_insert_loop f ts k (r # rs) conn) \<noteq> None"
      by (simp add: cursor_execute_insert_def)
    moreover from True have "\<not> (\<forall>j<length (r # rs). \<not> execute_fails f (k + j))"
      by (intro notI) (auto dest: spec [of _ 0])
    ultimately show ?thesis by blast
  next
    case False
    have "(\<forall>j<length (r # rs). \<not> execute_fails f (k + j)) \<longleftrightarrow>
          (\<forall>j<length rs. \<not> execute_fails f (Suc k + j))"
      using False by (auto simp: less_Suc_eq_0_disj)
    with False Cons.IH [of "Suc k"] show ?thesis
      by (simp add: cursor_execute_insert_def)
  qed
qed

lemma timer_insert_loop_eq:
  "timer_insert_loop f ts k rs conn = http_insert_loop f ts k rs conn"
  by (induction rs arbitrary: k conn) (simp_all split: prod.splits option.splits)

lemma timer_try_eq: "timer_try f cs rs ts db = http_try f cs rs ts db"
  unfolding timer_try_def http_try_def timer_insert_loop_eq ..

lemma http_try_ok:
  assumes "\<not> connect_fails f" "\<not> cursor_fails f" "\<forall>j<length rs. \<not> execute_fails f j" "\<not> commit_fails f"
  shows "\<exists>c. http_try f cs rs ts db =
           (Some c, None, db\<lparr>SensorReadings := SensorReadings db @ batch_rows ts rs\<rparr>)"
proof -
  obtain c1 where loop: "http_insert_loop f ts 0 rs \<lparr>pending = []\<rparr> = (None, c1)"
    using http_insert_loop_ok_iff [of f ts 0 rs "\<lparr>pending = []\<rparr>"] assms(3)
    by (cases "http_insert_loop f ts 0 rs \<lparr>pending = []\<rparr>") simp
  from http_insert_loop_pending [OF loop] have "pending c1 = batch_rows ts rs" by simp
  with loop assms show ?thesis
    by (simp add: http_try_def pyodbc_connect_def conn_cursor_def conn_commit_def)
qed

lemma http_try_failed:
  assumes "connect_fails f \<or> cursor_fails f \<or> (\<exists>j<length rs. execute_fails f j) \<or> commit_fails f"
  shows "\<exists>c e. http_try f cs rs ts db = (c, Some e, db)"
proof (cases "connect_fails f \<or> cursor_fails f")
  case True
  then show ?thesis
    by (auto simp: http_try_def pyodbc_connect_def conn_cursor_def)
next
  case False
  show ?thesis
  proof (cases "\<exists>j<length rs. execute_fails f j")
    case True
    then have "fst (http_insert_loop f ts 0 rs \<lparr>pending = []\<rparr>) \<noteq> None"
      using http_insert_loop_ok_iff [of f ts 0 rs "\<lparr>pending = []\<rparr>"] by simp
    then obtain e c1 where "http_insert_loop f ts 0 rs \<lparr>pending = []\<rparr> = (Some e, c1)"
      by (cases "http_insert_loop f ts 0 rs \<lparr>pending = []\<rparr>") auto
    with False show ?thesis
      by (simp add: http_try_def pyodbc_connect_def conn_cursor_def)
  next
    case nofail: False
    with False assms have cf: "commit_fails f" by blast
    obtain c1 where "http_insert_loop f ts 0 rs \<lparr>pending = []\<rparr> = (None, c1)"
      using http_insert_loop_ok_iff [of f ts 0 rs "\<lparr>pending = []\<rparr>"] nofail
      by (cases "http_insert_loop f ts 0 rs \<lparr>pending = []\<rparr>") simp
    with False cf show ?thesis
      by (simp add: http_try_def pyodbc_connect_def conn_cursor_def conn_commit_def)
  qed
qed

lemma generate_http_ok:
  assumes env: "environ ''AZURE_SQL_CONNECTIONSTRING'' = Some cs"
    and ok: "\<not> connect_fails f" "\<not> cursor_fails f" "\<forall>j<20. \<not> execute_fails f j"
      "\<not> commit_fails f"
  shows "generate_http environ rnd i now f db =
           (Inr \<lparr>status_code = 200,
                  body = GenerateJson 20 now (fst (generate_sensor_readings rnd i))\<rparr>,
            db\<lparr>SensorReadings :=
                 SensorReadings db @ batch_rows now (fst (generate_sensor_readings rnd i))\<rparr>)"
proof -
  obtain readings i' where g: "generate_sensor_readings rnd i = (readings, i')"
    by (cases "generate_sensor_readings rnd i")
  have len: "length readings = 20" using generate_length [of rnd i] g by simp
  with ok(3) have "\<forall>j<length readings. \<not> execute_fails f j" by simp
  from http_try_ok [OF ok(1) ok(2) this ok(4), of cs now db]
  obtain c where "http_try f cs readings now db =
      (Some c, None, db\<lparr>SensorReadings := SensorReadings db @ batch_rows now readings\<rparr>)" ..
  then show ?thesis by (simp add: generate_http_def g env len)
qed

lemma generate_http_failed:
  assumes env: "environ ''AZURE_SQL_CONNECTIONSTRING'' = Some cs"
    and bad: "connect_fails f \<or> cursor_fails f \<or> (\<exists>j<20. execute_fails f j) \<or> commit_fails f"
  shows "\<exists>e. generate_http environ rnd i now f db =
           (Inr \<lparr>status_code = 500, body = Text (''Error inserting into SQL: '' @ str e)\<rparr>, db)"
proof -
  obtain readings i' where g: "generate_sensor_readings rnd i = (readings, i')"
    by (cases "generate_sensor_readings rnd i")
  have len: "length readings = 20" using generate_length [of rnd i] g by simp
  with bad have "connect_fails f \<or> cursor_fails f \<or> (\<exists>j<length readings. execute_fails f j) \<or>
      commit_fails f" by simp
  from http_try_failed [OF this, of cs now db]
  obtain c e where "http_try f cs readings now db = (c, Some e, db)" by blast
  then have "generate_http environ rnd i now f db =
      (Inr \<lparr>status_code = 500, body = Text (''Error inserting into SQL: '' @ str e)\<rparr>, db)"
    by (simp add: generate_http_def g env)
  then show ?thesis ..
qed

lemma generate_http_unconfigured:
  assumes "environ ''AZURE_SQL_CONNECTIONSTRING'' = None"
  shows "generate_http environ rnd i now f db =
           (Inl (KeyError ''AZURE_SQL_CONNECTIONSTRING''), db)"
  using assms by (simp add: generate_http_def split: prod.splits)

lemma generate_timer_ok:
  assumes env: "environ ''AZURE_SQL_CONNECTIONSTRING'' = Some cs"
    and ok: "\<not> connect_fails f" "\<not> cursor_fails f" "\<forall>j<20. \<not> execute_fails f j"
      "\<not> commit_fails f"
  shows "generate_timer environ rnd i now f db =
           (Inr (InfoInserted 20),
            db\<lparr>SensorReadings :=
                 SensorReadings db @ batch_rows now (fst (generate_sensor_readings rnd i))\<rparr>)"
proof -
  obtain readings i' where g: "generate_sensor_readings rnd i = (readings, i')"
    by (cases "generate_sensor_readings rnd i")
  have len: "length readings = 20" using generate_length [of rnd i] g by simp
  with ok(3) have "\<forall>j<length readings. \<not> execute_fails f j" by simp
  from http_try_ok [OF ok(1) ok(2) this ok(4), of cs now db]
  obtain c where "http_try f cs readings now db =
      (Some c, None, db\<lparr>SensorReadings := SensorReadings db @ batch_rows now readings\<rparr>)" ..
  then show ?thesis by (simp add: generate_timer_def timer_try_eq g env len)
qed

lemma generate_timer_failed:
  assumes env: "environ ''AZURE_SQL_CONNECTIONSTRING'' = Some cs"
    and bad: "connect_fails f \<or> cursor_fails f \<or> (\<exists>j<20. execute_fails f j) \<or> commit_fails f"
  shows "\<exists>e. generate_timer environ rnd i now f db = (Inr (ErrorSql e), db)"
proof -
  obtain readings i' where g: "generate_sensor_readings rnd i = (readings, i')"
    by (cases "generate_sensor_readings rnd i")
  have len: "length readings = 20" using generate_length [of rnd i] g by simp
  with bad have "connect_fails f \<or> cursor_fails f \<or> (\<exists>j<length readings. execute_fails f j) \<or>
      commit_fails f" by simp
  from http_try_failed [OF this, of cs now db]
  obtain c e where "http_try f cs readings now db = (c, Some e, db)" by blast
  then have "generate_timer environ rnd i now f db = (Inr (ErrorSql e), db)"
    by (simp add: generate_timer_def timer_try_eq g env)
  then show ?thesis ..
qed

lemma generate_timer_unconfigured:
  assumes "environ ''AZURE_SQL_CONNECTIONSTRING'' = None"
  shows "generate_timer environ rnd i now f db =
           (Inl (KeyError ''AZURE_SQL_CONNECTIONSTRING''), db)"
  using assms by (simp add: generate_timer_def split: prod.splits)

text \<open>
  Claim C1. The write of a batch is atomic, in the HTTP handler and in the timer handler:
  whatever driver call fails, a call either ends with all 20 rows of its batch appended to
  the table (and reports success), or it reports the error and leaves the store exactly as
  it was; a batch is never visible in part. A call that raises because the connection
  string is not configured leaves the store as it was, too.
\<close>

theorem ingestion_batch_atomic:
  "(generate_http environ rnd i now f db =
      (Inr \<lparr>status_code = 200,
             body = GenerateJson 20 now (fst (generate_sensor_readings rnd i))\<rparr>,
       db\<lparr>SensorReadings :=
            SensorReadings db @ batch_rows now (fst (generate_sensor_readings rnd i))\<rparr>) \<or>
    (\<exists>e. generate_http environ rnd i now f db =
      (Inr \<lparr>status_code = 500, body = Text (''Error inserting into SQL: '' @ str e)\<rparr>, db)) \<or>
    generate_http environ rnd i now f db = (Inl (KeyError ''AZURE_SQL_CONNECTIONSTRING''), db)) \<and>
   (generate_timer environ rnd i now f db =
      (Inr (InfoInserted 20),
       db\<lparr>SensorReadings :=
            SensorReadings db @ batch_rows now (fst (generate_sensor_readings rnd i))\<rparr>) \<or>
    (\<exists>e. generate_timer environ rnd i now f db = (Inr (ErrorSql e), db)) \<or>
    generate_timer environ rnd i now f db = (Inl (KeyError ''AZURE_SQL_CONNECTIONSTRING''), db))"
proof (cases "environ ''AZURE_SQL_CONNECTIONSTRING''")
  case None
  then show ?thesis
    using generate_http_unconfigured generate_timer_unconfigured by simp
next
  case (Some cs)
  show ?thesis
  proof (cases "connect_fails f \<or> cursor_fails f \<or> (\<exists>j<20. execute_fails f j) \<or> commit_fails f")
    case True
    from generate_http_failed [where environ = environ and f = f, OF Some True]
      generate_timer_failed [where environ = environ and f = f, OF Some True]
    show ?thesis by blast
  next
    case False
    then have ok: "\<not> connect_fails f" "\<not> cursor_fails f" "\<forall>j<20. \<not> execute_fails f j"
      "\<not> commit_fails f" by blast+
    from generate_http_ok [where environ = environ and f = f, OF Some ok]
      generate_timer_ok [where environ = environ and f = f, OF Some ok]
    show ?thesis by blast
  qed
qed

theorem ingestion_batch_atomic_witness:
  "snd (generate_http configured midpoint_source 0 7 third_insert_fails sample_store) = sample_store \<and>
   snd (generate_timer configured midpoint_source 0 7 third_insert_fails sample_store) = sample_store"
proof -
  have h: "fst (generate_http configured midpoint_source 0 7 third_insert_fails sample_store)
             = Inr \<lparr>status_code = 500, body = Text ''Error inserting into SQL: execute failed''\<rparr>"
    by code_simp
  have t: "fst (generate_timer configured midpoint_source 0 7 third_insert_fails sample_store)
             = Inr (ErrorSql (DbError ''execute failed''))"
    by code_simp
  show ?thesis
    using ingestion_batch_atomic [of configured midpoint_source 0 7 third_insert_fails sample_store]
      h t
    by auto
qed

text \<open>
  Claim C5. With the connection string configured, when the store cannot be reached, or
  the cursor, one of the 20 INSERTs or the commit fails, \<^verbatim>\<open>GET /generate\<close> returns
  (it does not raise) a response with status 500 and an error body, and the store is
  unchanged: no row is inserted. The service stays healthy: a later call whose driver
  calls succeed, on the store the failed call left, answers 200.
\<close>

theorem generate_http_insert_failure:
  assumes env: "environ ''AZURE_SQL_CONNECTIONSTRING'' = Some cs"
    and bad: "connect_fails f \<or> cursor_fails f \<or> (\<exists>j<20. execute_fails f j) \<or> commit_fails f"
    and later: "\<not> connect_fails f2" "\<not> cursor_fails f2" "\<forall>j<20. \<not> execute_fails f2 j"
      "\<not> commit_fails f2"
  shows "(\<exists>e. generate_http environ rnd i now f db =
            (Inr \<lparr>status_code = 500, body = Text (''Error inserting into SQL: '' @ str e)\<rparr>,
             db)) \<and>
         (\<exists>resp. fst (generate_http environ rnd2 i2 now2 f2
                        (snd (generate_http environ rnd i now f db))) = Inr resp \<and>
                 status_code resp = 200)"
proof -
  from generate_http_failed [where environ = environ and f = f, OF env bad]
  obtain e where first: "generate_http environ rnd i now f db =
      (Inr \<lparr>status_code = 500, body = Text (''Error inserting into SQL: '' @ str e)\<rparr>, db)"
    by blast
  have "\<exists>resp. fst (generate_http environ rnd2 i2 now2 f2 db) = Inr resp \<and> status_code resp = 200"
    using generate_http_ok [where environ = environ and f = f2, OF env later] by simp
  with first show ?thesis by auto
qed

theorem generate_http_insert_failure_witness:
  "(\<exists>e. generate_http configured midpoint_source 0 7 store_unreachable sample_store =
            (Inr \<lparr>status_code = 500, body = Text (''Error inserting into SQL: '' @ str e)\<rparr>,
             sample_store)) \<and>
   (\<exists>resp. fst (generate_http configured midpoint_source 80 8 no_faults
                  (snd (generate_http configured midpoint_source 0 7 store_unreachable
                          sample_store))) = Inr resp \<and>
           status_code resp = 200)"
proof -
  have env: "configured ''AZURE_SQL_CONNECTIONSTRING'' = Some ''Driver=ODBC;Server=db''"
    by (simp add: configured_def)
  have bad: "connect_fails store_unreachable \<or> cursor_fails store_unreachable \<or>
      (\<exists>j<20. execute_fails store_unreachable j) \<or> commit_fails store_unreachable"
    by (simp add: store_unreachable_def)
  have later: "\<not> connect_fails no_faults" "\<not> cursor_fails no_faults"
      "\<forall>j<20. \<not> execute_fails no_faults j" "\<not> commit_fails no_faults"
    by (simp_all add: no_faults_def)
  from generate_http_insert_failure [where environ = configured and f = store_unreachable
      and ?f2.0 = no_faults, OF env bad later]
  show ?thesis .
qed

text \<open>
  Claim C8. Every successful ingestion call, by the HTTP handler (status 200) or by the
  timer handler (the line about the inserted rows is logged), adds 20 rows to the table,
  and every row it adds carries the one timestamp taken before the insertion.
\<close>

theorem batch_shares_timestamp:
  "(fst (generate_http environ rnd i now f db) = Inr resp \<and> status_code resp = 200 \<longrightarrow>
      (\<exists>new. SensorReadings (snd (generate_http environ rnd i now f db)) =
                SensorReadings db @ new \<and>
             length new = 20 \<and> (\<forall>r\<in>set new. ReadingTimeUtc r = now))) \<and>
   (fst (generate_timer environ rnd i now f db) = Inr (InfoInserted n) \<longrightarrow>
      (\<exists>new. SensorReadings (snd (generate_timer environ rnd i now f db)) =
                SensorReadings db @ new \<and>
             length new = 20 \<and> (\<forall>r\<in>set new. ReadingTimeUtc r = now)))"
proof -
  let ?new = "batch_rows now (fst (generate_sensor_readings rnd i))"
  have new: "length ?new = 20 \<and> (\<forall>r\<in>set ?new. ReadingTimeUtc r = now)"
    by (auto simp: batch_rows_def generate_length)
  show ?thesis
  proof (cases "environ ''AZURE_SQL_CONNECTIONSTRING''")
    case None
    then show ?thesis
      by (simp add: generate_http_unconfigured generate_timer_unconfigured)
  next
    case (Some cs)
    show ?thesis
    proof (cases "connect_fails f \<or> cursor_fails f \<or> (\<exists>j<20. execute_fails f j) \<or> commit_fails f")
      case True
      from generate_http_failed [where environ = environ and f = f, OF Some True, of rnd i now db]
        generate_timer_failed [where environ = environ and f = f, OF Some True, of rnd i now db]
      show ?thesis by auto
    next
      case False
      then have ok: "\<not> connect_fails f" "\<not> cursor_fails f" "\<forall>j<20. \<not> execute_fails f j"
        "\<not> commit_fails f" by blast+
      have "SensorReadings (snd (generate_http environ rnd i now f db)) = SensorReadings db @ ?new"
        "SensorReadings (snd (generate_timer environ rnd i now f db)) = SensorReadings db @ ?new"
        using generate_http_ok [where environ = environ and f = f, OF Some ok]
          generate_timer_ok [where environ = environ and f = f, OF Some ok] by simp_all
      with new show ?thesis by blast
    qed
  qed
qed

theorem batch_shares_timestamp_witness:
  "(\<exists>new. SensorReadings (snd (generate_http configured midpoint_source 0 7 no_faults sample_store)) =
            SensorReadings sample_store @ new \<and>
          length new = 20 \<and> list_all (\<lambda>r. ReadingTimeUtc r = 7) new) \<and>
   (\<exists>new. SensorReadings (snd (generate_timer configured midpoint_source 0 7 no_faults sample_store)) =
            SensorReadings sample_store @ new \<and>
          length new = 20 \<and> list_all (\<lambda>r. ReadingTimeUtc r = 7) new)"
proof -
  have env: "configured ''AZURE_SQL_CONNECTIONSTRING'' = Some ''Driver=ODBC;Server=db''"
    by (simp add: configured_def)
  have ok: "\<not> connect_fails no_faults" "\<not> cursor_fails no_faults"
      "\<forall>j<20. \<not> execute_fails no_faults j" "\<not> commit_fails no_faults"
    by (simp_all add: no_faults_def)
  let ?resp = "\<lparr>status_code = 200,
      body = GenerateJson 20 7 (fst (generate_sensor_readings midpoint_source 0))\<rparr>"
  have h: "fst (generate_http configured midpoint_source 0 7 no_faults sample_store) = Inr ?resp \<and>
      status_code ?resp = 200"
    using generate_http_ok [where environ = configured and f = no_faults, OF env ok] by simp
  have t: "fst (generate_timer configured midpoint_source 0 7 no_faults sample_store) =
      Inr (InfoInserted 20)"
    using generate_timer_ok [where environ = configured and f = no_faults, OF env ok] by simp
  from batch_shares_timestamp [of configured midpoint_source 0 7 no_faults sample_store ?resp 20]
    h t
  show ?thesis by (simp add: list_all_iff)
qed

text \<open>
  Claim C10. Given the same environment, random source, timestamp, driver failures and
  store, the timer handler and the HTTP handler leave the same store behind (they insert
  the same rows); one succeeds exactly when the other does, and one raises exactly when the
  other does. They differ in how they report: a log line against an HTTP response.
\<close>

theorem timer_ingests_like_http:
  "snd (generate_timer environ rnd i now f db) = snd (generate_http environ rnd i now f db) \<and>
   ((\<exists>n. fst (generate_timer environ rnd i now f db) = Inr (InfoInserted n)) \<longleftrightarrow>
    (\<exists>resp. fst (generate_http environ rnd i now f db) = Inr resp \<and> status_code resp = 200)) \<and>
   ((\<exists>e. fst (generate_timer environ rnd i now f db) = Inl e) \<longleftrightarrow>
    (\<exists>e. fst (generate_http environ rnd i now f db) = Inl e))"
  by (auto simp: generate_timer_def generate_http_def timer_try_eq
      split: prod.splits option.splits)

section \<open>Properties of the statistics query\<close>

lemma group_keys:
  "map GroupSensorId (map select_aggregates (group_by_SensorId rows)) = remdups (map SensorId rows)"
  by (simp add: group_by_SensorId_def select_aggregates_def comp_def)

lemma insort_key_image:
  "f ` set (insort_key f x xs) = insert (f x) (f ` set xs)"
  by (simp add: set_insort_key)

lemma distinct_map_insort_key:
  "distinct (map f (insort_key f x xs)) \<longleftrightarrow> f x \<notin> f ` set xs \<and> distinct (map f xs)"
  by (induction xs) (auto simp: set_insort_key)

lemma distinct_map_sort_key:
  "distinct (map f (sort_key f xs)) \<longleftrightarrow> distinct (map f xs)"
  by (induction xs) (simp_all add: distinct_map_insort_key)

lemma stats_query_ids_sorted:
  "sorted_wrt (<) (map GroupSensorId (stats_query rows))"
proof -
  have "distinct (map GroupSensorId (map select_aggregates (group_by_SensorId rows)))"
    unfolding group_keys by simp
  then have "distinct (map GroupSensorId (stats_query rows))"
    unfolding stats_query_def by (simp only: distinct_map_sort_key)
  moreover have "sorted (map GroupSensorId (stats_query rows))"
    unfolding stats_query_def by (rule sorted_sort_key)
  ultimately show ?thesis by (simp add: strict_sorted_iff)
qed

lemma stats_query_ids_set:
  "GroupSensorId ` set (stats_query rows) = SensorId ` set rows"
proof -
  have "GroupSensorId ` set (stats_query rows) =
        set (map GroupSensorId (map select_aggregates (group_by_SensorId rows)))"
    unfolding stats_query_def by (simp add: image_image)
  also have "\<dots> = SensorId ` set rows" unfolding group_keys by simp
  finally show ?thesis .
qed

lemma sql_AVG_nonempty: "xs \<noteq> [] \<Longrightarrow> sql_AVG (map f xs) \<noteq> None"
  by (cases xs) (simp_all add: sql_AVG_def)

lemma group_nonempty:
  assumes "(k, g) \<in> set (group_by_SensorId rows)"
  shows "g \<noteq> []"
proof -
  from assms have k: "k \<in> SensorId ` set rows" and g: "g = filter (\<lambda>r. SensorId r = k) rows"
    by (auto simp: group_by_SensorId_def)
  from k obtain r where "r \<in> set rows" "SensorId r = k" by auto
  then have "r \<in> set g" using g by simp
  then show ?thesis by auto
qed

lemma stats_query_averages:
  assumes "r \<in> set (stats_query rows)"
  shows "averages_present r"
proof -
  from assms obtain k g where kg: "(k, g) \<in> set (group_by_SensorId rows)"
    and r: "r = select_aggregates (k, g)"
    by (auto simp: stats_query_def)
  from group_nonempty [OF kg] show ?thesis
    unfolding r averages_present_def select_aggregates_def
    by (simp add: sql_AVG_nonempty)
qed

lemma format_loop_ok:
  "list_all averages_present rs \<Longrightarrow>
   \<exists>out. format_loop rs data = Inr (data @ out) \<and> map stat_sensor_id out = map GroupSensorId rs"
proof (induction rs arbitrary: data)
  case Nil
  then show ?case by simp
next
  case (Cons r rs)
  from Cons.prems obtain ta wa ha ca where avgs: "AvgTemp r = Some ta" "AvgWind r = Some wa"
      "AvgHumidity r = Some ha" "AvgCO2 r = Some ca"
    by (auto simp: averages_present_def)
  let ?s = "\<lparr>stat_sensor_id = GroupSensorId r,
              temperature_min = MinTemp r, temperature_max = MaxTemp r, temperature_avg = ta,
              wind_min = MinWind r, wind_max = MaxWind r, wind_avg = wa,
              humidity_min = MinHumidity r, humidity_max = MaxHumidity r, humidity_avg = ha,
              co2_min = MinCO2 r, co2_max = MaxCO2 r, co2_avg = ca\<rparr>"
  from Cons.prems have "list_all averages_present rs" by simp
  from Cons.IH [OF this, of "data @ [?s]"]
  obtain out where out: "format_loop rs (data @ [?s]) = Inr ((data @ [?s]) @ out)"
    and ids: "map stat_sensor_id out = map GroupSensorId rs" by blast
  have "format_loop (r # rs) data = Inr (data @ (?s # out))"
    using out avgs by (simp add: py_float_def)
  moreover have "map stat_sensor_id (?s # out) = map GroupSensorId (r # rs)"
    using ids by simp
  ultimately show ?case by blast
qed

lemma stats_http_ok:
  assumes env: "environ ''AZURE_SQL_CONNECTIONSTRING'' = Some cs"
    and ok: "\<not> connect_fails f" "\<not> cursor_fails f" "\<not> execute_fails f 0"
  shows "\<exists>data. stats_http environ f db = (\<lparr>status_code = 200, body = StatsJson data\<rparr>, db) \<and>
           map stat_sensor_id data = map GroupSensorId (stats_query (SensorReadings db))"
proof -
  have "list_all averages_present (stats_query (SensorReadings db))"
    by (simp add: list_all_iff stats_query_averages)
  from format_loop_ok [OF this, of "[]"]
  obtain data where fl: "format_loop (stats_query (SensorReadings db)) [] = Inr data"
    and ids: "map stat_sensor_id data = map GroupSensorId (stats_query (SensorReadings db))"
    by auto
  have "stats_http environ f db = (\<lparr>status_code = 200, body = StatsJson data\<rparr>, db)"
    using env ok fl
    by (simp add: stats_http_def stats_try_def pyodbc_connect_def conn_cursor_def
        cursor_execute_select_def)
  with ids show ?thesis by blast
qed


text \<open>
  Claim C6. Whatever the table holds, when the connection string is configured and the
  driver calls succeed, \<^verbatim>\<open>GET /stats\<close> answers 200 with a list of per-sensor statistics
  whose sensor ids are strictly ascending (so no id occurs twice) and are exactly the
  sensor ids that occur in the table: one entry for each distinct sensor id.
\<close>

theorem stats_sorted_one_per_sensor:
  assumes "environ ''AZURE_SQL_CONNECTIONSTRING'' = Some cs"
    and "\<not> connect_fails f" "\<not> cursor_fails f" "\<not> execute_fails f 0"
  shows "\<exists>data. fst (stats_http environ f db) = \<lparr>status_code = 200, body = StatsJson data\<rparr> \<and>
           sorted_wrt (<) (map stat_sensor_id data) \<and>
           set (map stat_sensor_id data) = SensorId ` set (SensorReadings db)"
proof -
  from stats_http_ok [where environ = environ and f = f, OF assms, of db]
  obtain data where resp: "stats_http environ f db = (\<lparr>status_code = 200, body = StatsJson data\<rparr>, db)"
    and ids: "map stat_sensor_id data = map GroupSensorId (stats_query (SensorReadings db))"
    by blast
  have "sorted_wrt (<) (map stat_sensor_id data)"
    unfolding ids by (rule stats_query_ids_sorted)
  moreover have "set (map stat_sensor_id data) = SensorId ` set (SensorReadings db)"
    unfolding ids using stats_query_ids_set [of "SensorReadings db"] by simp
  ultimately show ?thesis using resp by simp
qed

theorem stats_sorted_one_per_sensor_witness:
  "\<exists>data. fst (stats_http configured no_faults sample_store) =
            \<lparr>status_code = 200, body = StatsJson data\<rparr> \<and>
          sorted_wrt (<) (map stat_sensor_id data) \<and>
          set (map stat_sensor_id data) = {1, 2}"
proof -
  have env: "configured ''AZURE_SQL_CONNECTIONSTRING'' = Some ''Driver=ODBC;Server=db''"
    by (simp add: configured_def)
  have ok: "\<not> connect_fails no_faults" "\<not> cursor_fails no_faults" "\<not> execute_fails no_faults 0"
    by (simp_all add: no_faults_def)
  have "SensorId ` set (SensorReadings sample_store) = {1, 2}"
    by (auto simp: sample_store_def sample_row_def)
  with stats_sorted_one_per_sensor [where environ = configured and f = no_faults, OF env ok,
      of sample_store]
  show ?thesis by simp
qed

text \<open>
  Claim C7. Under the same conditions, a sensor id with no row in the table has no entry
  in the statistics, and on an empty table the list of statistics is empty.
\<close>

theorem stats_omit_absent_sensors:
  assumes "environ ''AZURE_SQL_CONNECTIONSTRING'' = Some cs"
    and "\<not> connect_fails f" "\<not> cursor_fails f" "\<not> execute_fails f 0"
  shows "\<exists>data. fst (stats_http environ f db) = \<lparr>status_code = 200, body = StatsJson data\<rparr> \<and>
           (\<forall>k. k \<notin> SensorId ` set (SensorReadings db) \<longrightarrow> k \<notin> stat_sensor_id ` set data) \<and>
           (SensorReadings db = [] \<longrightarrow> data = [])"
proof -
  from stats_http_ok [where environ = environ and f = f, OF assms, of db]
  obtain data where resp: "stats_http environ f db = (\<lparr>status_code = 200, body = StatsJson data\<rparr>, db)"
    and ids: "map stat_sensor_id data = map GroupSensorId (stats_query (SensorReadings db))"
    by blast
  have "set (map stat_sensor_id data) = SensorId ` set (SensorReadings db)"
    unfolding ids using stats_query_ids_set [of "SensorReadings db"] by simp
  then have sub: "stat_sensor_id ` set data = SensorId ` set (SensorReadings db)" by simp
  then have "SensorReadings db = [] \<longrightarrow> data = []" by auto
  with sub resp show ?thesis by simp
qed

theorem stats_omit_absent_sensors_witness:
  "\<exists>data. fst (stats_http configured no_faults sample_store) =
            \<lparr>status_code = 200, body = StatsJson data\<rparr> \<and>
          3 \<notin> stat_sensor_id ` set data \<and>
          fst (stats_http configured no_faults empty_store) =
            \<lparr>status_code = 200, body = StatsJson []\<rparr>"
proof -
  have env: "configured ''AZURE_SQL_CONNECTIONSTRING'' = Some ''Driver=ODBC;Server=db''"
    by (simp add: configured_def)
  have ok: "\<not> connect_fails no_faults" "\<not> cursor_fails no_faults" "\<not> execute_fails no_faults 0"
    by (simp_all add: no_faults_def)
  have absent: "3 \<notin> SensorId ` set (SensorReadings sample_store)"
    by (simp add: sample_store_def sample_row_def)
  have empty: "SensorReadings empty_store = []" by (simp add: empty_store_def)
  from stats_omit_absent_sensors [where environ = configured and f = no_faults, OF env ok,
      of sample_store] absent
  obtain data where d: "fst (stats_http configured no_faults sample_store) =
      \<lparr>status_code = 200, body = StatsJson data\<rparr>" "3 \<notin> stat_sensor_id ` set data"
    by blast
  from stats_omit_absent_sensors [where environ = configured and f = no_faults, OF env ok,
      of empty_store] empty
  have "fst (stats_http configured no_faults empty_store) = \<lparr>status_code = 200, body = StatsJson []\<rparr>"
    by auto
  with d show ?thesis by blast
qed





end
